theory Spec2Isabelle
  imports Main
begin

section \<open>The node model of \<open>sigil_bs4/element.py\<close>\<close>

text \<open>
  Python objects are shared and mutated in place, and every claim about the tree depends
  on which object a link points to.  Objects are therefore addresses (\<open>ref\<close>), and the
  tree is a store with one component per attribute of \<open>PageElement\<close>/\<open>Tag\<close>:
  \<open>parent s x\<close> is \<open>x.parent\<close>, \<open>contents s x\<close> is \<open>x.contents\<close>, and so on.  Object
  identity (\<open>is\<close>) is equality of addresses; value equality (\<open>==\<close>, \<open>!=\<close>) is \<open>py_eq\<close> below.
\<close>

type_synonym ref = nat

datatype element_class =
  Tag | NavigableString | CData | ProcessingInstruction | Comment | Declaration | Doctype

datatype attr_value = NoValue | Str string | StrList "string list"

record tree =
  kind :: "ref \<Rightarrow> element_class"
  name :: "ref \<Rightarrow> string"
  payload :: "ref \<Rightarrow> string"
  attrs :: "ref \<Rightarrow> (string \<times> attr_value) list"
  contents :: "ref \<Rightarrow> ref list"
  parent :: "ref \<Rightarrow> ref option"
  previous_element :: "ref \<Rightarrow> ref option"
  next_element :: "ref \<Rightarrow> ref option"
  previous_sibling :: "ref \<Rightarrow> ref option"
  next_sibling :: "ref \<Rightarrow> ref option"
  is_xml :: "ref \<Rightarrow> bool"
  prefix :: "ref \<Rightarrow> string option"
  hidden :: "ref \<Rightarrow> bool"
  can_be_empty_element :: "ref \<Rightarrow> bool"
  next_ref :: ref

datatype error =
  ValueError string | AttributeError | IndexError | TypeError
  | NotImplementedError string | RecursionError

text \<open>
  A call either returns a value, or raises; both leave a store behind (an exception does
  not undo the assignments made before it).  \<open>Diverges\<close> is a loop that never exits.
\<close>

datatype 'a outcome = Returns 'a tree | Raises error tree | Diverges

text \<open>What a caller may pass where an element is expected.\<close>

datatype py_arg = Node ref | RawStr string | PyNone

subsection \<open>Truthiness, list primitives\<close>

text \<open>\<open>Tag.__bool__\<close> is always true; a \<open>NavigableString\<close> is a \<open>str\<close>, false when empty.\<close>

definition truthy :: "tree \<Rightarrow> ref \<Rightarrow> bool" where
  "truthy s x = (kind s x = Tag \<or> payload s x \<noteq> [])"

definition truthy_opt :: "tree \<Rightarrow> ref option \<Rightarrow> bool" where
  "truthy_opt s xo = (case xo of None \<Rightarrow> False | Some x \<Rightarrow> truthy s x)"

text \<open>
  Subscription \<open>xs[i]\<close> of a Python list: an index below zero is taken from the end,
  and an index outside \<open>-len(xs) .. len(xs) - 1\<close> raises.
\<close>

definition py_get :: "'a list \<Rightarrow> int \<Rightarrow> error + 'a" where
  "py_get xs i =
     (if 0 \<le> i \<and> i < int (length xs) then Inr (xs ! nat i)
      else if i < 0 \<and> - int (length xs) \<le> i then Inr (xs ! nat (int (length xs) + i))
      else Inl IndexError)"

text \<open>\<open>xs.insert(i, x)\<close>: a negative index counts from the end; the index is clamped.\<close>

definition py_insert :: "'a list \<Rightarrow> int \<Rightarrow> 'a \<Rightarrow> 'a list" where
  "py_insert xs i x =
     (let n = int (length xs); j = (if i < 0 then max 0 (n + i) else min i n)
      in take (nat j) xs @ x # drop (nat j) xs)"

text \<open>\<open>del xs[i]\<close> for an index returned by \<open>Tag.index\<close>.\<close>

definition del_at :: "'a list \<Rightarrow> nat \<Rightarrow> 'a list" where
  "del_at xs i = take i xs @ drop (Suc i) xs"

subsection \<open>\<open>Tag.index\<close>: search by identity\<close>

fun index_from :: "ref list \<Rightarrow> ref \<Rightarrow> nat \<Rightarrow> error + nat" where
  "index_from [] element i = Inl (ValueError ''Tag.index: element not in tag'')"
| "index_from (child # rest) element i =
     (if child = element then Inr i else index_from rest element (Suc i))"

definition index :: "tree \<Rightarrow> ref \<Rightarrow> ref \<Rightarrow> error + nat" where
  "index s self element =
     (if kind s self \<noteq> Tag then Inl AttributeError
      else index_from (contents s self) element 0)"

subsection \<open>Value equality: \<open>Tag.__eq__\<close>, \<open>Tag.__ne__\<close> and \<open>str\<close> comparison\<close>

text \<open>
  \<open>Tag.__eq__\<close> recurses through \<open>contents\<close>.  The interpreter bounds the nesting of
  calls and raises RecursionError beyond it; \<open>recursion_limit\<close> is that bound, counted
  in nested element comparisons.
\<close>

definition recursion_limit :: nat where
  "recursion_limit = 1000"

fun py_eq :: "nat \<Rightarrow> tree \<Rightarrow> ref \<Rightarrow> ref \<Rightarrow> error + bool"
  and children_eq :: "nat \<Rightarrow> tree \<Rightarrow> ref list \<Rightarrow> ref list \<Rightarrow> error + bool" where
  "py_eq k s a b =
     (if kind s a = Tag then
        (if a = b then Inr True
         else if kind s b \<noteq> Tag \<or> name s a \<noteq> name s b \<or> attrs s a \<noteq> attrs s b
                 \<or> length (contents s a) \<noteq> length (contents s b) then Inr False
         else (case k of 0 \<Rightarrow> Inl RecursionError
               | Suc k' \<Rightarrow> children_eq k' s (contents s a) (contents s b)))
      else if kind s b = Tag then Inr False
      else Inr (payload s a = payload s b))"
| "children_eq k s [] others = Inr True"
| "children_eq k s (my_child # rest) [] = Inl IndexError"
| "children_eq k s (my_child # rest) (other # others) =
     (case py_eq k s my_child other of
        Inl e \<Rightarrow> Inl e
      | Inr True \<Rightarrow> children_eq k s rest others
      | Inr False \<Rightarrow> Inr False)"

text \<open>\<open>a != b\<close> where \<open>a\<close> is an element and \<open>b\<close> an element or None.\<close>

definition py_ne :: "tree \<Rightarrow> ref \<Rightarrow> ref option \<Rightarrow> error + bool" where
  "py_ne s a bo =
     (case bo of
        None \<Rightarrow> Inr True
      | Some b \<Rightarrow> (case py_eq recursion_limit s a b of Inl e \<Rightarrow> Inl e | Inr r \<Rightarrow> Inr (\<not> r)))"

subsection \<open>\<open>_last_descendant\<close>\<close>

partial_function (option) last_descendant_loop :: "tree \<Rightarrow> ref \<Rightarrow> ref option" where
  "last_descendant_loop s last_child =
     (if kind s last_child = Tag \<and> contents s last_child \<noteq> []
      then last_descendant_loop s (last (contents s last_child))
      else Some last_child)"

text \<open>
  \<open>_last_descendant(is_initialized)\<close>, with \<open>accept_self\<close> at its default True as in every
  call of the file.  The result is an element or None (the outer option is the loop).
\<close>

definition last_descendant :: "tree \<Rightarrow> ref \<Rightarrow> bool \<Rightarrow> ref option option" where
  "last_descendant s self is_initialized =
     (if is_initialized \<and> truthy_opt s (next_sibling s self)
      then Some (previous_element s (the (next_sibling s self)))
      else map_option Some (last_descendant_loop s self))"

subsection \<open>Assignments to one attribute of one object\<close>

definition set_parent :: "tree \<Rightarrow> ref \<Rightarrow> ref option \<Rightarrow> tree" where
  "set_parent s x v = s\<lparr>parent := (parent s)(x := v)\<rparr>"

definition set_previous_element :: "tree \<Rightarrow> ref \<Rightarrow> ref option \<Rightarrow> tree" where
  "set_previous_element s x v = s\<lparr>previous_element := (previous_element s)(x := v)\<rparr>"

definition set_next_element :: "tree \<Rightarrow> ref \<Rightarrow> ref option \<Rightarrow> tree" where
  "set_next_element s x v = s\<lparr>next_element := (next_element s)(x := v)\<rparr>"

definition set_previous_sibling :: "tree \<Rightarrow> ref \<Rightarrow> ref option \<Rightarrow> tree" where
  "set_previous_sibling s x v = s\<lparr>previous_sibling := (previous_sibling s)(x := v)\<rparr>"

definition set_next_sibling :: "tree \<Rightarrow> ref \<Rightarrow> ref option \<Rightarrow> tree" where
  "set_next_sibling s x v = s\<lparr>next_sibling := (next_sibling s)(x := v)\<rparr>"

definition set_contents :: "tree \<Rightarrow> ref \<Rightarrow> ref list \<Rightarrow> tree" where
  "set_contents s x v = s\<lparr>contents := (contents s)(x := v)\<rparr>"

subsection \<open>\<open>PageElement.extract\<close> (\<open>extract_node\<close>: \<open>extract\<close> is a reserved word)\<close>

text \<open>
  The two guarded assignments that reconnect the document-order chain, and the two that
  reconnect the sibling chain.  The guards compare with \<open>!=\<close>, which is value
  inequality (\<open>py_ne\<close>), not identity.
\<close>

definition extract_elements :: "tree \<Rightarrow> ref \<Rightarrow> ref \<Rightarrow> error + tree" where
  "extract_elements s self last_child =
     (let next_el = next_element s last_child in
      case (case previous_element s self of
              None \<Rightarrow> Inr s
            | Some pe \<Rightarrow>
                (case py_ne s pe next_el of
                   Inl e \<Rightarrow> Inl e
                 | Inr c \<Rightarrow> Inr (if c then set_next_element s pe next_el else s))) of
        Inl e \<Rightarrow> Inl e
      | Inr s1 \<Rightarrow>
          (case (case next_el of
                   None \<Rightarrow> Inr s1
                 | Some ne \<Rightarrow>
                     (case py_ne s1 ne (previous_element s1 self) of
                        Inl e \<Rightarrow> Inl e
                      | Inr c \<Rightarrow>
                          Inr (if c then set_previous_element s1 ne (previous_element s1 self)
                               else s1))) of
             Inl e \<Rightarrow> Inl e
           | Inr s2 \<Rightarrow>
               Inr (set_next_element (set_previous_element s2 self None) last_child None)))"

definition extract_siblings :: "tree \<Rightarrow> ref \<Rightarrow> error + tree" where
  "extract_siblings s self =
     (case (case previous_sibling s self of
              None \<Rightarrow> Inr s
            | Some ps \<Rightarrow>
                (case py_ne s ps (next_sibling s self) of
                   Inl e \<Rightarrow> Inl e
                 | Inr c \<Rightarrow> Inr (if c then set_next_sibling s ps (next_sibling s self) else s))) of
        Inl e \<Rightarrow> Inl e
      | Inr s1 \<Rightarrow>
          (case (case next_sibling s1 self of
                   None \<Rightarrow> Inr s1
                 | Some ns \<Rightarrow>
                     (case py_ne s1 ns (previous_sibling s1 self) of
                        Inl e \<Rightarrow> Inl e
                      | Inr c \<Rightarrow>
                          Inr (if c then set_previous_sibling s1 ns (previous_sibling s1 self)
                               else s1))) of
             Inl e \<Rightarrow> Inl e
           | Inr s2 \<Rightarrow> Inr (set_next_sibling (set_previous_sibling s2 self None) self None)))"

text \<open>\<open>del self.parent.contents[self.parent.index(self)]\<close>, when there is a parent.\<close>

definition extract_contents :: "tree \<Rightarrow> ref \<Rightarrow> error + tree" where
  "extract_contents s self =
     (case parent s self of
        None \<Rightarrow> Inr s
      | Some p \<Rightarrow>
          (case index s p self of
             Inl e \<Rightarrow> Inl e
           | Inr i \<Rightarrow> Inr (set_contents s p (del_at (contents s p) i))))"

definition extract_node :: "tree \<Rightarrow> ref \<Rightarrow> ref outcome" where
  "extract_node s self =
     (case extract_contents s self of
        Inl e \<Rightarrow> Raises e s
      | Inr s1 \<Rightarrow>
          (case last_descendant s1 self True of
             None \<Rightarrow> Diverges
           | Some None \<Rightarrow> Raises AttributeError s1
           | Some (Some last_child) \<Rightarrow>
               (case extract_elements s1 self last_child of
                  Inl e \<Rightarrow> Raises e s1
                | Inr s2 \<Rightarrow>
                    (let s3 = set_parent s2 self None in
                     case extract_siblings s3 self of
                       Inl e \<Rightarrow> Raises e s3
                     | Inr s4 \<Rightarrow> Returns self s4))))"

subsection \<open>\<open>PageElement.insert\<close>\<close>

text \<open>\<open>NavigableString(value)\<close>: a new object, set up with every link None.\<close>

definition new_navigable_string :: "tree \<Rightarrow> string \<Rightarrow> ref \<times> tree" where
  "new_navigable_string s value =
     (let u = next_ref s in
      (u, s\<lparr>kind := (kind s)(u := NavigableString),
             name := (name s)(u := []),
             payload := (payload s)(u := value),
             attrs := (attrs s)(u := []),
             contents := (contents s)(u := []),
             parent := (parent s)(u := None),
             previous_element := (previous_element s)(u := None),
             next_element := (next_element s)(u := None),
             previous_sibling := (previous_sibling s)(u := None),
             next_sibling := (next_sibling s)(u := None),
             is_xml := (is_xml s)(u := False),
             prefix := (prefix s)(u := None),
             hidden := (hidden s)(u := False),
             can_be_empty_element := (can_be_empty_element s)(u := False),
             next_ref := Suc u\<rparr>))"

text \<open>
  The loop of \<open>insert\<close> that climbs from the tag to the nearest ancestor-or-self with a
  next sibling.  The result is that sibling, or None at the end of the document.
\<close>

partial_function (option) parents_next_sibling :: "tree \<Rightarrow> ref option \<Rightarrow> ref option option" where
  "parents_next_sibling s parent_var =
     (case parent_var of
        None \<Rightarrow> Some None
      | Some p \<Rightarrow>
          (case next_sibling s p of
             Some sib \<Rightarrow> Some (Some sib)
           | None \<Rightarrow> parents_next_sibling s (parent s p)))"

text \<open>The first half of the wiring: parent, previous sibling, previous element.\<close>

definition insert_before_links :: "tree \<Rightarrow> ref \<Rightarrow> int \<Rightarrow> ref \<Rightarrow> unit outcome" where
  "insert_before_links s self position new_child =
     (let s1 = set_parent s new_child (Some self) in
      case (if position = 0
            then Returns () (set_previous_element (set_previous_sibling s1 new_child None)
                               new_child (Some self))
            else (case py_get (contents s1 self) (position - 1) of
                    Inl e \<Rightarrow> Raises e s1
                  | Inr previous_child \<Rightarrow>
                      (let s2 = set_previous_sibling s1 new_child (Some previous_child);
                           s3 = (case previous_sibling s2 new_child of
                                   None \<Rightarrow> s2
                                 | Some ps \<Rightarrow> set_next_sibling s2 ps (Some new_child))
                       in case last_descendant s3 previous_child False of
                            None \<Rightarrow> Diverges
                          | Some l \<Rightarrow> Returns () (set_previous_element s3 new_child l)))) of
        Diverges \<Rightarrow> Diverges
      | Raises e s' \<Rightarrow> Raises e s'
      | Returns u s4 \<Rightarrow>
          Returns () (case previous_element s4 new_child of
                        None \<Rightarrow> s4
                      | Some pe \<Rightarrow> set_next_element s4 pe (Some new_child)))"

text \<open>The second half: next sibling, next element of the last descendant, contents.\<close>

definition insert_after_links :: "tree \<Rightarrow> ref \<Rightarrow> int \<Rightarrow> ref \<Rightarrow> unit outcome" where
  "insert_after_links s self position new_child =
     (case last_descendant s new_child False of
        None \<Rightarrow> Diverges
      | Some None \<Rightarrow> Raises AttributeError s
      | Some (Some new_childs_last_element) \<Rightarrow>
          (case (if position \<ge> int (length (contents s self))
                 then (let s1 = set_next_sibling s new_child None in
                       case parents_next_sibling s1 (Some self) of
                         None \<Rightarrow> Diverges
                       | Some pns \<Rightarrow> Returns () (set_next_element s1 new_childs_last_element pns))
                 else (case py_get (contents s self) position of
                         Inl e \<Rightarrow> Raises e s
                       | Inr next_child \<Rightarrow>
                           (let s1 = set_next_sibling s new_child (Some next_child);
                                s2 = (case next_sibling s1 new_child of
                                        None \<Rightarrow> s1
                                      | Some ns \<Rightarrow> set_previous_sibling s1 ns (Some new_child))
                            in Returns () (set_next_element s2 new_childs_last_element
                                             (Some next_child))))) of
             Diverges \<Rightarrow> Diverges
           | Raises e s' \<Rightarrow> Raises e s'
           | Returns u s3 \<Rightarrow>
               (let s4 = (case next_element s3 new_childs_last_element of
                            None \<Rightarrow> s3
                          | Some ne \<Rightarrow> set_previous_element s3 ne (Some new_childs_last_element))
                in Returns () (set_contents s4 self (py_insert (contents s4 self) position new_child)))))"

definition insert_links :: "tree \<Rightarrow> ref \<Rightarrow> int \<Rightarrow> ref \<Rightarrow> unit outcome" where
  "insert_links s self position new_child =
     (case insert_before_links s self position new_child of
        Diverges \<Rightarrow> Diverges
      | Raises e s' \<Rightarrow> Raises e s'
      | Returns u s' \<Rightarrow> insert_after_links s' self position new_child)"

text \<open>\<open>insert\<close> once \<open>new_child\<close> is an element: clamp the position, move or detach.\<close>

definition insert_node :: "tree \<Rightarrow> ref \<Rightarrow> int \<Rightarrow> ref \<Rightarrow> unit outcome" where
  "insert_node s self position new_child =
     (if kind s self \<noteq> Tag then Raises AttributeError s
      else
        (let position = min position (int (length (contents s self))) in
         case parent s new_child of
           None \<Rightarrow> insert_links s self position new_child
         | Some q \<Rightarrow>
             (case (if q = self
                    then (case index s self new_child of
                            Inl e \<Rightarrow> Inl e
                          | Inr current_index \<Rightarrow>
                              Inr (if int current_index < position then position - 1
                                   else position))
                    else Inr position) of
                Inl e \<Rightarrow> Raises e s
              | Inr position \<Rightarrow>
                  (case extract_node s new_child of
                     Diverges \<Rightarrow> Diverges
                   | Raises e s' \<Rightarrow> Raises e s'
                   | Returns r s' \<Rightarrow> insert_links s' self position new_child))))"

definition insert :: "tree \<Rightarrow> ref \<Rightarrow> int \<Rightarrow> py_arg \<Rightarrow> unit outcome" where
  "insert s self position new_child =
     (if new_child = Node self then Raises (ValueError ''Cannot insert a tag into itself.'') s
      else case new_child of
             RawStr value \<Rightarrow>
               (let (u, s') = new_navigable_string s value in insert_node s' self position u)
           | Node c \<Rightarrow> insert_node s self position c
           | PyNone \<Rightarrow> Raises AttributeError s)"

definition append :: "tree \<Rightarrow> ref \<Rightarrow> py_arg \<Rightarrow> unit outcome" where
  "append s self tag =
     (if kind s self \<noteq> Tag then Raises AttributeError s
      else insert s self (int (length (contents s self))) tag)"


subsection \<open>\<open>replace_with\<close>, \<open>unwrap\<close>, \<open>wrap\<close>, \<open>insert_before\<close>, \<open>insert_after\<close>\<close>

text \<open>\<open>replace_with\<close> returns \<open>self\<close>, or None from its bare \<open>return\<close>.\<close>

definition replace_with :: "tree \<Rightarrow> ref \<Rightarrow> py_arg \<Rightarrow> ref option outcome" where
  "replace_with s self replacement =
     (if \<not> truthy_opt s (parent s self) then
        Raises (ValueError ''Cannot replace one element with another when theelement to be replaced is not part of a tree.'') s
      else if replacement = Node self then Returns None s
      else if replacement = Node (the (parent s self)) then
        Raises (ValueError ''Cannot replace a Tag with its parent.'') s
      else
        (let old_parent = the (parent s self) in
         case index s old_parent self of
           Inl e \<Rightarrow> Raises e s
         | Inr my_index \<Rightarrow>
             (case extract_node s self of
                Diverges \<Rightarrow> Diverges
              | Raises e s' \<Rightarrow> Raises e s'
              | Returns r s' \<Rightarrow>
                  (case insert s' old_parent (int my_index) replacement of
                     Diverges \<Rightarrow> Diverges
                   | Raises e s'' \<Rightarrow> Raises e s''
                   | Returns u s'' \<Rightarrow> Returns (Some self) s''))))"

text \<open>The loop of \<open>unwrap\<close> over \<open>reversed(self.contents[:])\<close>, a copy taken before it starts.\<close>

fun insert_each :: "tree \<Rightarrow> ref \<Rightarrow> int \<Rightarrow> ref list \<Rightarrow> unit outcome" where
  "insert_each s my_parent my_index [] = Returns () s"
| "insert_each s my_parent my_index (child # rest) =
     (case insert s my_parent my_index (Node child) of
        Diverges \<Rightarrow> Diverges
      | Raises e s' \<Rightarrow> Raises e s'
      | Returns u s' \<Rightarrow> insert_each s' my_parent my_index rest)"

definition unwrap :: "tree \<Rightarrow> ref \<Rightarrow> ref outcome" where
  "unwrap s self =
     (if \<not> truthy_opt s (parent s self) then
        Raises (ValueError ''Cannot replace an element with its contents when thatelement is not part of a tree.'') s
      else
        (let my_parent = the (parent s self) in
         case index s my_parent self of
           Inl e \<Rightarrow> Raises e s
         | Inr my_index \<Rightarrow>
             (case extract_node s self of
                Diverges \<Rightarrow> Diverges
              | Raises e s' \<Rightarrow> Raises e s'
              | Returns r s' \<Rightarrow>
                  (if kind s' self \<noteq> Tag then Raises AttributeError s'
                   else
                     (case insert_each s' my_parent (int my_index) (rev (contents s' self)) of
                        Diverges \<Rightarrow> Diverges
                      | Raises e s'' \<Rightarrow> Raises e s''
                      | Returns u s'' \<Rightarrow> Returns self s'')))))"


text \<open>
  \<open>insert_before\<close> and \<open>insert_after\<close> differ in the message and in the index only;
  \<open>offset\<close> is 0 for the first and 1 for the second.
\<close>

definition insert_beside :: "string \<Rightarrow> string \<Rightarrow> int \<Rightarrow> tree \<Rightarrow> ref \<Rightarrow> py_arg \<Rightarrow> unit outcome" where
  "insert_beside msg_self msg_parent offset s self other =
     (if other = Node self then Raises (ValueError msg_self) s
      else case parent s self of
             None \<Rightarrow> Raises (ValueError msg_parent) s
           | Some p \<Rightarrow>
               (case (case other of
                        Node x \<Rightarrow> extract_node s x
                      | _ \<Rightarrow> Returns self s) of
                  Diverges \<Rightarrow> Diverges
                | Raises e s' \<Rightarrow> Raises e s'
                | Returns r s' \<Rightarrow>
                    (case index s' p self of
                       Inl e \<Rightarrow> Raises e s'
                     | Inr i \<Rightarrow> insert s' p (int i + offset) other)))"

definition insert_before :: "tree \<Rightarrow> ref \<Rightarrow> py_arg \<Rightarrow> unit outcome" where
  "insert_before = insert_beside ''Can't insert an element before itself.''
                     ''Element has no parent, so 'before' has no meaning.'' 0"

definition insert_after :: "tree \<Rightarrow> ref \<Rightarrow> py_arg \<Rightarrow> unit outcome" where
  "insert_after = insert_beside ''Can't insert an element after itself.''
                    ''Element has no parent, so 'after' has no meaning.'' 1"

subsection \<open>Outcomes and a small document\<close>




text \<open>The call raised ValueError and the store it leaves is the store it was given.\<close>

definition rejected_unchanged :: "'a outcome \<Rightarrow> tree \<Rightarrow> bool" where
  "rejected_unchanged r s = (case r of Raises (ValueError msg) s' \<Rightarrow> s' = s | _ \<Rightarrow> False)"

text \<open>
  The document \<open><p>a<b></b>a</p>\<close>: object 0 is the \<open>p\<close> tag, 1 and 3 are the two
  strings \<open>"a"\<close>, 2 is the \<open>b\<close> tag, with every link as the builder sets it.
\<close>

definition doc_aba :: tree where
  "doc_aba =
     \<lparr>kind = (\<lambda>x. if x = 0 \<or> x = 2 then Tag else NavigableString),
      name = (\<lambda>x. if x = 0 then ''p'' else if x = 2 then ''b'' else []),
      payload = (\<lambda>x. if x = 1 \<or> x = 3 then ''a'' else []),
      attrs = (\<lambda>x. []),
      contents = (\<lambda>x. if x = 0 then [1, 2, 3] else []),
      parent = (\<lambda>x. if x = 1 \<or> x = 2 \<or> x = 3 then Some 0 else None),
      previous_element = (\<lambda>x. if x = 1 \<or> x = 2 \<or> x = 3 then Some (x - 1) else None),
      next_element = (\<lambda>x. if x < 3 then Some (x + 1) else None),
      previous_sibling = (\<lambda>x. if x = 2 \<or> x = 3 then Some (x - 1) else None),
      next_sibling = (\<lambda>x. if x = 1 \<or> x = 2 then Some (x + 1) else None),
      is_xml = (\<lambda>x. False), prefix = (\<lambda>x. None), hidden = (\<lambda>x. False),
      can_be_empty_element = (\<lambda>x. False),
      next_ref = 4\<rparr>"



subsection \<open>The generators \<open>next_elements\<close>, \<open>previous_elements\<close> and \<open>parents\<close>\<close>

text \<open>The elements a generator yields, in order; None when it never stops.\<close>

partial_function (option) follow_next_element :: "tree \<Rightarrow> ref option \<Rightarrow> ref list option" where
  "follow_next_element s i =
     (case i of
        None \<Rightarrow> Some []
      | Some x \<Rightarrow> Option.bind (follow_next_element s (next_element s x)) (\<lambda>rest. Some (x # rest)))"

partial_function (option) follow_previous_element :: "tree \<Rightarrow> ref option \<Rightarrow> ref list option" where
  "follow_previous_element s i =
     (case i of
        None \<Rightarrow> Some []
      | Some x \<Rightarrow>
          Option.bind (follow_previous_element s (previous_element s x)) (\<lambda>rest. Some (x # rest)))"

definition next_elements :: "tree \<Rightarrow> ref \<Rightarrow> ref list option" where
  "next_elements s self = follow_next_element s (next_element s self)"

definition previous_elements :: "tree \<Rightarrow> ref \<Rightarrow> ref list option" where
  "previous_elements s self = follow_previous_element s (previous_element s self)"

partial_function (option) follow_parent :: "tree \<Rightarrow> ref option \<Rightarrow> ref list option" where
  "follow_parent s i =
     (case i of
        None \<Rightarrow> Some []
      | Some x \<Rightarrow> Option.bind (follow_parent s (parent s x)) (\<lambda>rest. Some (x # rest)))"

definition parents :: "tree \<Rightarrow> ref \<Rightarrow> ref list option" where
  "parents s self = follow_parent s (parent s self)"

subsection \<open>Constructing elements\<close>

text \<open>
  \<open>Tag(name=name, attrs=attrs)\<close>: no builder (so \<open>can_be_empty_element\<close> is False), no
  prefix, no parent, no previous element.
\<close>

definition new_tag :: "tree \<Rightarrow> string \<Rightarrow> (string \<times> attr_value) list \<Rightarrow> ref \<times> tree" where
  "new_tag s tag_name tag_attrs =
     (let u = next_ref s in
      (u, s\<lparr>kind := (kind s)(u := Tag),
             name := (name s)(u := tag_name),
             payload := (payload s)(u := []),
             attrs := (attrs s)(u := tag_attrs),
             contents := (contents s)(u := []),
             parent := (parent s)(u := None),
             previous_element := (previous_element s)(u := None),
             next_element := (next_element s)(u := None),
             previous_sibling := (previous_sibling s)(u := None),
             next_sibling := (next_sibling s)(u := None),
             is_xml := (is_xml s)(u := False),
             prefix := (prefix s)(u := None),
             hidden := (hidden s)(u := False),
             can_be_empty_element := (can_be_empty_element s)(u := False),
             next_ref := Suc u\<rparr>))"

text \<open>A store in which nothing has been allocated.\<close>

definition blank :: tree where
  "blank =
     \<lparr>kind = (\<lambda>x. NavigableString), name = (\<lambda>x. []), payload = (\<lambda>x. []),
      attrs = (\<lambda>x. []), contents = (\<lambda>x. []), parent = (\<lambda>x. None),
      previous_element = (\<lambda>x. None), next_element = (\<lambda>x. None),
      previous_sibling = (\<lambda>x. None), next_sibling = (\<lambda>x. None),
      is_xml = (\<lambda>x. False), prefix = (\<lambda>x. None), hidden = (\<lambda>x. False),
      can_be_empty_element = (\<lambda>x. False), next_ref = 0\<rparr>"

text \<open>
  \<open>p = Tag(name="p"); p.append("a"); b = Tag(name="b"); p.append(b); p.append("a")\<close>
\<close>

definition build_aba :: "unit outcome" where
  "build_aba =
     (let (p, s1) = new_tag blank ''p'' [] in
      case append s1 p (RawStr ''a'') of
        Returns u s2 \<Rightarrow>
          (let (b, s3) = new_tag s2 ''b'' [] in
           case append s3 p (Node b) of
             Returns u s4 \<Rightarrow> append s4 p (RawStr ''a'')
           | r \<Rightarrow> r)
      | r \<Rightarrow> r)"

text \<open>
  The document \<open><div><p><b></b></p></div>\<close>: object 0 is the \<open>div\<close>, 1 the \<open>p\<close>, 2 the
  \<open>b\<close>; and the calls that build it.
\<close>

definition doc_nested :: tree where
  "doc_nested =
     \<lparr>kind = (\<lambda>x. if x \<le> 2 then Tag else NavigableString),
      name = (\<lambda>x. if x = 0 then ''div'' else if x = 1 then ''p'' else if x = 2 then ''b'' else []),
      payload = (\<lambda>x. []),
      attrs = (\<lambda>x. []),
      contents = (\<lambda>x. if x = 0 then [1] else if x = 1 then [2] else []),
      parent = (\<lambda>x. if x = 1 then Some 0 else if x = 2 then Some 1 else None),
      previous_element = (\<lambda>x. if x = 1 \<or> x = 2 then Some (x - 1) else None),
      next_element = (\<lambda>x. if x < 2 then Some (x + 1) else None),
      previous_sibling = (\<lambda>x. None),
      next_sibling = (\<lambda>x. None),
      is_xml = (\<lambda>x. False), prefix = (\<lambda>x. None), hidden = (\<lambda>x. False),
      can_be_empty_element = (\<lambda>x. False),
      next_ref = 3\<rparr>"

definition build_nested :: "unit outcome" where
  "build_nested =
     (let (d, s1) = new_tag blank ''div'' [];
          (p, s2) = new_tag s1 ''p'' []
      in case append s2 d (Node p) of
           Returns u s3 \<Rightarrow>
             (let (b, s4) = new_tag s3 ''b'' [] in append s4 p (Node b))
         | r \<Rightarrow> r)"

section \<open>The selector evaluator\<close>

subsection \<open>Strings\<close>

text \<open>
  A string is a list of code points below 256.  \<open>is_space\<close> is \<open>str.isspace\<close> on one
  character, which is also \<open>\s\<close> of \<open>re\<close> on \<open>str\<close> patterns.
\<close>

definition code_point :: "char \<Rightarrow> nat" where
  "code_point c = of_char c"

definition is_space :: "char \<Rightarrow> bool" where
  "is_space c = (code_point c \<in> {9, 10, 11, 12, 13, 28, 29, 30, 31, 32, 133, 160})"

definition is_digit :: "char \<Rightarrow> bool" where
  "is_digit c = (48 \<le> code_point c \<and> code_point c \<le> 57)"

definition is_ascii_alnum :: "char \<Rightarrow> bool" where
  "is_ascii_alnum c =
     ((97 \<le> code_point c \<and> code_point c \<le> 122) \<or> (65 \<le> code_point c \<and> code_point c \<le> 90)
      \<or> is_digit c)"

text \<open>\<open>\w\<close>: alphanumeric by \<open>str.isalnum\<close>, or the underscore.\<close>

definition is_word :: "char \<Rightarrow> bool" where
  "is_word c =
     (is_ascii_alnum c \<or> c = CHR ''_''
      \<or> code_point c \<in> {170, 178, 179, 181, 185, 186, 188, 189, 190}
      \<or> (192 \<le> code_point c \<and> code_point c \<noteq> 215 \<and> code_point c \<noteq> 247))"

text \<open>The class \<open>[-.a-zA-Z0-9:_]\<close> of the two tag-name patterns.\<close>

definition is_tag_char :: "char \<Rightarrow> bool" where
  "is_tag_char c = (is_ascii_alnum c \<or> c \<in> {CHR ''-'', CHR ''.'', CHR '':'', CHR ''_''})"

text \<open>\<open>re.sub(',[\s]*', ',', selector)\<close>: \<open>skipping\<close> is true right after a comma.\<close>

fun strip_after_commas :: "bool \<Rightarrow> string \<Rightarrow> string" where
  "strip_after_commas skipping [] = []"
| "strip_after_commas skipping (c # cs) =
     (if skipping \<and> is_space c then strip_after_commas True cs
      else c # strip_after_commas (c = CHR '','') cs)"

text \<open>\<open>s.split()\<close>: the maximal runs of characters that are not whitespace.\<close>

fun split_whitespace :: "string \<Rightarrow> string \<Rightarrow> string list" where
  "split_whitespace word [] = (if word = [] then [] else [rev word])"
| "split_whitespace word (c # cs) =
     (if is_space c then (if word = [] then split_whitespace [] cs
                          else rev word # split_whitespace [] cs)
      else split_whitespace (c # word) cs)"

text \<open>\<open>s.split(sep)\<close> for a separator of one character: empty pieces are kept.\<close>

fun split_on :: "char \<Rightarrow> string \<Rightarrow> string \<Rightarrow> string list" where
  "split_on sep piece [] = [rev piece]"
| "split_on sep piece (c # cs) =
     (if c = sep then rev piece # split_on sep [] cs else split_on sep (c # piece) cs)"

text \<open>\<open>s.split(sep, 1)\<close> when \<open>sep\<close> occurs in \<open>s\<close>: the parts around its first occurrence.\<close>

definition split_first :: "char \<Rightarrow> string \<Rightarrow> string \<times> string" where
  "split_first sep s = (takeWhile (\<lambda>c. c \<noteq> sep) s, tl (dropWhile (\<lambda>c. c \<noteq> sep) s))"

text \<open>\<open>" ".join(xs)\<close>\<close>

fun join_space :: "string list \<Rightarrow> string" where
  "join_space [] = []"
| "join_space [x] = x"
| "join_space (x # y # ys) = x @ CHR '' '' # join_space (y # ys)"

definition startswith :: "string \<Rightarrow> string \<Rightarrow> bool" where
  "startswith s pre = (take (length pre) s = pre)"

definition endswith :: "string \<Rightarrow> string \<Rightarrow> bool" where
  "endswith s suf = (length suf \<le> length s \<and> drop (length s - length suf) s = suf)"

text \<open>\<open>sub in s\<close> for strings.\<close>

fun contains :: "string \<Rightarrow> string \<Rightarrow> bool" where
  "contains [] sub = (sub = [])"
| "contains (c # cs) sub = (startswith (c # cs) sub \<or> contains cs sub)"

text \<open>\<open>int(s)\<close> for a string of decimal digits.\<close>

definition digit_value :: "char \<Rightarrow> int" where
  "digit_value c = int (code_point c) - 48"

definition int_of_digits :: "string \<Rightarrow> int" where
  "int_of_digits s = foldl (\<lambda>n c. 10 * n + digit_value c) 0 s"

subsection \<open>The three patterns\<close>

text \<open>
  \<open>attribselect_re.match(token)\<close>.  Every repetition of the pattern is followed by a
  character outside its class, so the greedy match is the only candidate: the tag is the
  longest run of tag characters, the attribute the longest run of \<open>[\w-]\<close>, and so on.
  The result is the four groups; the tag group is None when the token starts with \<open>[\<close>.
  \<open>$\<close> also matches before a final newline.
\<close>

definition attribselect_match :: "string \<Rightarrow> (string option \<times> string \<times> string \<times> string) option" where
  "attribselect_match token =
     (let (tag, r0) = (case token of
                         [] \<Rightarrow> (None, token)
                       | c # cs \<Rightarrow> if is_ascii_alnum c
                                   then (Some (c # takeWhile is_tag_char cs), dropWhile is_tag_char cs)
                                   else (None, token))
      in case r0 of
           [] \<Rightarrow> None
         | b # r1 \<Rightarrow>
             if b \<noteq> CHR ''['' then None
             else
               (let attribute = takeWhile (\<lambda>c. is_word c \<or> c = CHR ''-'') r1;
                    r2 = dropWhile (\<lambda>c. is_word c \<or> c = CHR ''-'') r1;
                    operator = (case r2 of
                                  [] \<Rightarrow> []
                                | c # cs \<Rightarrow> if c \<in> {CHR ''='', CHR ''~'', CHR ''|'', CHR ''^'',
                                                     CHR ''$'', CHR ''*''} then [c] else []);
                    r3 = drop (length operator) r2;
                    r4 = (case r3 of [] \<Rightarrow> [] | c # cs \<Rightarrow> if c = CHR ''='' then cs else r3);
                    r5 = (case r4 of [] \<Rightarrow> [] | c # cs \<Rightarrow> if c = CHR 0x22 then cs else r4);
                    value = takeWhile (\<lambda>c. c \<noteq> CHR '']'' \<and> c \<noteq> CHR 0x22) r5;
                    r6 = dropWhile (\<lambda>c. c \<noteq> CHR '']'' \<and> c \<noteq> CHR 0x22) r5;
                    r7 = (case r6 of [] \<Rightarrow> [] | c # cs \<Rightarrow> if c = CHR 0x22 then cs else r6)
                in if attribute \<noteq> [] \<and> (r7 = '']'' \<or> r7 = [CHR '']'', CHR 0x0A])
                   then Some (tag, attribute, operator, value)
                   else None))"

text \<open>\<open>tag_name_re.match(token)\<close>, as a truth value.\<close>

definition tag_name_match :: "string \<Rightarrow> bool" where
  "tag_name_match token =
     (case token of
        [] \<Rightarrow> False
      | c # cs \<Rightarrow>
          is_ascii_alnum c \<and>
          (dropWhile is_tag_char cs = [] \<or> dropWhile is_tag_char cs = [CHR 0x0A]))"

text \<open>
  \<open>re.match('([a-zA-Z\d-]+)\(([a-zA-Z\d]+)\)', pseudo)\<close>: the two groups.  The match is
  anchored at the start only.
\<close>

definition pseudo_match :: "string \<Rightarrow> (string \<times> string) option" where
  "pseudo_match pseudo =
     (let ptype = takeWhile (\<lambda>c. is_ascii_alnum c \<or> c = CHR ''-'') pseudo;
          r1 = dropWhile (\<lambda>c. is_ascii_alnum c \<or> c = CHR ''-'') pseudo
      in case r1 of
           [] \<Rightarrow> None
         | b # r2 \<Rightarrow>
             (let pvalue = takeWhile is_ascii_alnum r2; r3 = dropWhile is_ascii_alnum r2
              in if ptype \<noteq> [] \<and> b = CHR ''('' \<and> pvalue \<noteq> [] \<and> take 1 r3 = '')''
                 then Some (ptype, pvalue) else None))"

subsection \<open>Attributes and checkers\<close>

text \<open>\<open>Tag.get(key)\<close>: None here is the absent key; \<open>NoValue\<close> is a stored Python None.\<close>

definition get :: "tree \<Rightarrow> ref \<Rightarrow> string \<Rightarrow> attr_value option" where
  "get s self key = map_of (attrs s self) key"

definition has_attr :: "tree \<Rightarrow> ref \<Rightarrow> string \<Rightarrow> bool" where
  "has_attr s self key = (get s self key \<noteq> None)"

text \<open>
  \<open>_attr_value_as_string(value, default)\<close>: the result is a string or Python's None;
  a list is joined with spaces.
\<close>

definition attr_value_as_string :: "tree \<Rightarrow> ref \<Rightarrow> string \<Rightarrow> string option \<Rightarrow> string option" where
  "attr_value_as_string s self key default_value =
     (case get s self key of
        None \<Rightarrow> default_value
      | Some NoValue \<Rightarrow> None
      | Some (Str v) \<Rightarrow> Some v
      | Some (StrList vs) \<Rightarrow> Some (join_space vs))"

text \<open>
  The function returned by \<open>_attribute_checker(operator, attribute, value)\<close>, applied to
  an element.  A method called on None raises AttributeError, \<open>in\<close> on None TypeError.
\<close>

definition attribute_checker :: "string \<Rightarrow> string \<Rightarrow> string \<Rightarrow> tree \<Rightarrow> ref \<Rightarrow> error + bool" where
  "attribute_checker operator attribute value s el =
     (if operator = ''='' then Inr (attr_value_as_string s el attribute None = Some value)
      else if operator = ''~'' then
        (case get s el attribute of
           None \<Rightarrow> Inr False
         | Some (StrList vs) \<Rightarrow> Inr (value \<in> set vs)
         | Some (Str v) \<Rightarrow> Inr (value \<in> set (split_whitespace [] v))
         | Some NoValue \<Rightarrow> Inl AttributeError)
      else if operator = ''^'' then
        (case attr_value_as_string s el attribute (Some []) of
           None \<Rightarrow> Inl AttributeError
         | Some v \<Rightarrow> Inr (startswith v value))
      else if operator = ''$'' then
        (case attr_value_as_string s el attribute (Some []) of
           None \<Rightarrow> Inl AttributeError
         | Some v \<Rightarrow> Inr (endswith v value))
      else if operator = ''*'' then
        (case attr_value_as_string s el attribute (Some []) of
           None \<Rightarrow> Inl TypeError
         | Some v \<Rightarrow> Inr (contains v value))
      else if operator = ''|'' then
        (case attr_value_as_string s el attribute (Some []) of
           None \<Rightarrow> Inl AttributeError
         | Some v \<Rightarrow> Inr (v = value \<or> startswith v (value @ ''-'')))
      else Inr (has_attr s el attribute))"

text \<open>\<open>id_matches\<close>: \<open>tag.get('id', None) == tag_id\<close>.\<close>

definition id_matches :: "string \<Rightarrow> tree \<Rightarrow> ref \<Rightarrow> error + bool" where
  "id_matches tag_id s tag = Inr (get s tag ''id'' = Some (Str tag_id))"

text \<open>
  \<open>classes_match\<close>: \<open>classes.issubset(candidate.get('class', []))\<close>.  The argument of
  \<open>issubset\<close> is iterated: a list gives its members, a string its characters.
\<close>

definition classes_match :: "string list \<Rightarrow> tree \<Rightarrow> ref \<Rightarrow> error + bool" where
  "classes_match classes s candidate =
     (case get s candidate ''class'' of
        None \<Rightarrow> Inr (set classes \<subseteq> {})
      | Some (StrList vs) \<Rightarrow> Inr (set classes \<subseteq> set vs)
      | Some (Str v) \<Rightarrow> Inr (set classes \<subseteq> (\<lambda>c. [c]) ` set v)
      | Some NoValue \<Rightarrow> Inl TypeError)"

text \<open>
  A checker as \<open>select\<close> builds it from a token.  \<open>NthChildOfType\<close> is the bound method
  of a \<open>Counter(destination)\<close>; its \<open>count\<close> is threaded through the calls.
\<close>

datatype checker =
  AttributeChecker string string string | IdMatches string | ClassesMatch "string list"
  | NthChildOfType int

datatype verdict = Verdict bool | StopIteration | CheckFails error

definition verdict_of :: "error + bool \<Rightarrow> verdict" where
  "verdict_of r = (case r of Inl e \<Rightarrow> CheckFails e | Inr b \<Rightarrow> Verdict b)"

definition apply_checker :: "tree \<Rightarrow> checker \<Rightarrow> nat \<Rightarrow> ref \<Rightarrow> nat \<times> verdict" where
  "apply_checker s checker count candidate =
     (case checker of
        AttributeChecker operator attribute value \<Rightarrow>
          (count, verdict_of (attribute_checker operator attribute value s candidate))
      | IdMatches tag_id \<Rightarrow> (count, verdict_of (id_matches tag_id s candidate))
      | ClassesMatch classes \<Rightarrow> (count, verdict_of (classes_match classes s candidate))
      | NthChildOfType destination \<Rightarrow>
          (Suc count,
           if int (Suc count) = destination then Verdict True
           else if int (Suc count) > destination then StopIteration
           else Verdict False))"

subsection \<open>Classifying a token\<close>

datatype candidate_source = Children | NextSiblings | NextTagSibling

text \<open>
  What the \<open>if\<close>/\<open>elif\<close> chain of \<open>select\<close> makes of one token: a tag name (None or empty
  when there is none) with a checker (None when there is none), or a combinator with
  the generator it selects.
\<close>

datatype parsed_token = Simple "string option" "checker option" | Combinator candidate_source

definition parse_pseudo :: "string \<Rightarrow> string \<Rightarrow> error + parsed_token" where
  "parse_pseudo tag_name pseudo =
     (if tag_name = [] then Inl (ValueError ''A pseudo-class must be prefixed with a tag name.'')
      else
        (let (pseudo_type, pseudo_value) =
               (case pseudo_match pseudo of
                  None \<Rightarrow> (pseudo, None)
                | Some (t, v) \<Rightarrow> (t, Some v))
         in if pseudo_type = ''nth-of-type'' then
              (case pseudo_value of
                 None \<Rightarrow> Inl (NotImplementedError ''Only numeric values are currently supported for the nth-of-type pseudo-class.'')
               | Some v \<Rightarrow>
                   if \<not> list_all is_digit v then
                     Inl (NotImplementedError ''Only numeric values are currently supported for the nth-of-type pseudo-class.'')
                   else if int_of_digits v < 1 then
                     Inl (ValueError ''nth-of-type pseudo-class value must be at least 1.'')
                   else Inr (Simple (Some tag_name) (Some (NthChildOfType (int_of_digits v)))))
            else Inl (NotImplementedError ''Only the following pseudo-classes are implemented: nth-of-type.'')))"

definition parse_token :: "string \<Rightarrow> error + parsed_token" where
  "parse_token token =
     (case attribselect_match token of
        Some (tag_name, attribute, operator, value) \<Rightarrow>
          Inr (Simple tag_name (Some (AttributeChecker operator attribute value)))
      | None \<Rightarrow>
          if CHR ''#'' \<in> set token then
            (let (tag_name, tag_id) = split_first (CHR ''#'') token
             in Inr (Simple (Some tag_name) (Some (IdMatches tag_id))))
          else if CHR ''.'' \<in> set token then
            (let (tag_name, klass) = split_first (CHR ''.'') token
             in Inr (Simple (Some tag_name) (Some (ClassesMatch (split_on (CHR ''.'') [] klass)))))
          else if CHR '':'' \<in> set token then
            (let (tag_name, pseudo) = split_first (CHR '':'') token
             in parse_pseudo tag_name pseudo)
          else if token = ''*'' then Inr (Simple None None)
          else if token = ''>'' then Inr (Combinator Children)
          else if token = ''~'' then Inr (Combinator NextSiblings)
          else if token = ''+'' then Inr (Combinator NextTagSibling)
          else if tag_name_match token then Inr (Simple (Some token) None)
          else Inl (ValueError (''Unsupported or invalid CSS selector: '' @ [CHR 0x22] @ token @ [CHR 0x22])))"



subsection \<open>Candidate generators\<close>

text \<open>
  A generator is consumed one element at a time and the consumer may stop early, so it
  is kept as its state.  \<open>ListGen\<close> is an iterator over a list already computed,
  \<open>DescendantsGen current stopNode\<close> the loop of \<open>descendants\<close>, \<open>SiblingsGen\<close> the
  loop of \<open>next_siblings\<close>, and \<open>Broken\<close> a generator whose next step raises.
\<close>

datatype generator =
  ListGen "ref option list" | DescendantsGen "ref option" "ref option"
  | SiblingsGen "ref option" | Broken error

text \<open>
  One step of a generator: it raises, or it is exhausted (None), or it yields an element
  (which may be None) and goes on as the generator given.
\<close>

definition gen_step :: "tree \<Rightarrow> generator \<Rightarrow> error + (ref option \<times> generator) option" where
  "gen_step s g =
     (case g of
        ListGen [] \<Rightarrow> Inr None
      | ListGen (x # xs) \<Rightarrow> Inr (Some (x, ListGen xs))
      | DescendantsGen current stopNode \<Rightarrow>
          if current = stopNode then Inr None
          else Inr (Some (current, (case current of
                                      None \<Rightarrow> Broken AttributeError
                                    | Some c \<Rightarrow> DescendantsGen (next_element s c) stopNode)))
      | SiblingsGen i \<Rightarrow>
          (case i of
             None \<Rightarrow> Inr None
           | Some x \<Rightarrow> Inr (Some (Some x, SiblingsGen (next_sibling s x))))
      | Broken e \<Rightarrow> Inl e)"

text \<open>\<open>Tag.descendants\<close> up to its loop; None when \<open>_last_descendant\<close> never returns.\<close>

definition descendants :: "tree \<Rightarrow> ref \<Rightarrow> generator option" where
  "descendants s self =
     (if contents s self = [] then Some (ListGen [])
      else (case last_descendant s self True of
              None \<Rightarrow> None
            | Some None \<Rightarrow> Some (Broken AttributeError)
            | Some (Some l) \<Rightarrow>
                Some (DescendantsGen (Some (hd (contents s self))) (next_element s l))))"

text \<open>
  \<open>find_next_sibling(True)\<close>: \<open>_find_all\<close> with limit 1 over \<open>next_siblings\<close>, where the
  strainer for the name True accepts exactly the tags.
\<close>

partial_function (option) find_next_sibling_true :: "tree \<Rightarrow> ref option \<Rightarrow> ref option option" where
  "find_next_sibling_true s i =
     (case i of
        None \<Rightarrow> Some None
      | Some x \<Rightarrow> if kind s x = Tag then Some (Some x)
                  else find_next_sibling_true s (next_sibling s x))"

text \<open>The three generators the combinators select.\<close>

definition source_generator :: "tree \<Rightarrow> candidate_source \<Rightarrow> ref \<Rightarrow> generator option" where
  "source_generator s source tag =
     (case source of
        Children \<Rightarrow> Some (ListGen (map Some (contents s tag)))
      | NextSiblings \<Rightarrow> Some (SiblingsGen (next_sibling s tag))
      | NextTagSibling \<Rightarrow>
          (case find_next_sibling_true s (next_sibling s tag) of
             None \<Rightarrow> None
           | Some r \<Rightarrow> Some (ListGen [r])))"

subsection \<open>The loops of \<open>select\<close>\<close>

text \<open>
  A result of the evaluator: None when it never returns, else an error or a value.
  The loops carry \<open>new_context\<close> and the count of the token's \<open>Counter\<close>;
  \<open>new_context_ids\<close> is the set of the members of \<open>new_context\<close>.
\<close>

definition limit_reached :: "int option \<Rightarrow> ref list \<Rightarrow> bool" where
  "limit_reached limit new_context =
     (case limit of None \<Rightarrow> False | Some l \<Rightarrow> l \<noteq> 0 \<and> int (length new_context) \<ge> l)"

text \<open>
  The body of \<open>for candidate in _use_candidate_generator(tag)\<close> for one candidate.  It
  raises, or it ends with the new \<open>new_context\<close> and count and True when the loop goes
  on (\<open>continue\<close>, or the end of the body) or False when it stops (\<open>break\<close>).
\<close>

definition consider_candidate ::
  "tree \<Rightarrow> string option \<Rightarrow> checker option \<Rightarrow> int option \<Rightarrow> ref option \<Rightarrow> ref list \<times> nat
     \<Rightarrow> error + bool \<times> ref list \<times> nat" where
  "consider_candidate s tag_name checker limit candidate st =
     (case candidate of
        None \<Rightarrow> Inr (True, st)
      | Some c \<Rightarrow>
          if kind s c \<noteq> Tag then Inr (True, st)
          else if tag_name \<noteq> None \<and> tag_name \<noteq> Some [] \<and> Some (name s c) \<noteq> tag_name
          then Inr (True, st)
          else
            (case (case checker of
                     None \<Rightarrow> (snd st, Verdict True)
                   | Some ch \<Rightarrow> apply_checker s ch (snd st) c) of
               (count, StopIteration) \<Rightarrow> Inr (False, fst st, count)
             | (count, CheckFails e) \<Rightarrow> Inl e
             | (count, Verdict False) \<Rightarrow> Inr (True, fst st, count)
             | (count, Verdict True) \<Rightarrow>
                 if c \<in> set (fst st) then Inr (True, fst st, count)
                 else Inr (\<not> limit_reached limit (fst st @ [c]), fst st @ [c], count)))"

partial_function (option) candidates_loop ::
  "tree \<Rightarrow> string option \<Rightarrow> checker option \<Rightarrow> int option \<Rightarrow> generator \<Rightarrow> ref list \<times> nat
     \<Rightarrow> (error + ref list \<times> nat) option" where
  "candidates_loop s tag_name checker limit g st =
     (case gen_step s g of
        Inl e \<Rightarrow> Some (Inl e)
      | Inr None \<Rightarrow> Some (Inr st)
      | Inr (Some (candidate, g')) \<Rightarrow>
          (case consider_candidate s tag_name checker limit candidate st of
             Inl e \<Rightarrow> Some (Inl e)
           | Inr (goes_on, st') \<Rightarrow>
               if goes_on then candidates_loop s tag_name checker limit g' st'
               else Some (Inr st')))"

text \<open>\<open>for tag in current_context\<close>; \<open>use_generator\<close> is \<open>_use_candidate_generator\<close>.\<close>

fun context_loop ::
  "(ref \<Rightarrow> generator option) \<Rightarrow> tree \<Rightarrow> string option \<Rightarrow> checker option \<Rightarrow> int option
     \<Rightarrow> ref list \<Rightarrow> ref list \<times> nat \<Rightarrow> (error + ref list \<times> nat) option" where
  "context_loop use_generator s tag_name checker limit [] st = Some (Inr st)"
| "context_loop use_generator s tag_name checker limit (tag # rest) st =
     (case use_generator tag of
        None \<Rightarrow> None
      | Some g \<Rightarrow>
          (case candidates_loop s tag_name checker limit g st of
             None \<Rightarrow> None
           | Some (Inl e) \<Rightarrow> Some (Inl e)
           | Some (Inr st') \<Rightarrow> context_loop use_generator s tag_name checker limit rest st'))"

text \<open>
  \<open>recursive_select(tag)\<close>: the generator over \<open>tag.select(next_token, ...)\<close>, which is
  called when the generator is first advanced.
\<close>

definition recursive_select :: "(error + ref list) option \<Rightarrow> generator option" where
  "recursive_select r =
     (case r of
        None \<Rightarrow> None
      | Some (Inl e) \<Rightarrow> Some (Broken e)
      | Some (Inr found) \<Rightarrow> Some (ListGen (map Some found)))"

type_synonym selector_call =
  "tree \<Rightarrow> ref \<Rightarrow> string \<Rightarrow> candidate_source option \<Rightarrow> int option \<Rightarrow> (error + ref list) option"

text \<open>The body of \<open>for token in grouped_tokens\<close> for one token.\<close>

definition eval_token ::
  "selector_call \<Rightarrow> tree \<Rightarrow> string list \<Rightarrow> nat \<Rightarrow> candidate_source option \<Rightarrow> int option
     \<Rightarrow> ref list \<Rightarrow> string \<Rightarrow> ref list \<Rightarrow> (error + ref list) option" where
  "eval_token rec s tokens idx candidate_generator limit current_context token new_context =
     (case parse_token token of
        Inl e \<Rightarrow> Some (Inl e)
      | Inr parsed \<Rightarrow>
          (case (case parsed of
                   Combinator source \<Rightarrow>
                     (case py_get tokens (int idx + 1) of
                        Inl e \<Rightarrow> Some (Inl e)
                      | Inr next_token \<Rightarrow>
                          context_loop (\<lambda>tag. recursive_select (rec s tag next_token (Some source) None))
                            s None None limit current_context (new_context, 0))
                 | Simple tag_name checker \<Rightarrow>
                     context_loop (\<lambda>tag. case candidate_generator of
                                            None \<Rightarrow> descendants s tag
                                          | Some source \<Rightarrow> source_generator s source tag)
                       s tag_name checker limit current_context (new_context, 0)) of
             None \<Rightarrow> None
           | Some (Inl e) \<Rightarrow> Some (Inl e)
           | Some (Inr st) \<Rightarrow> Some (Inr (fst st))))"

fun grouped_loop ::
  "selector_call \<Rightarrow> tree \<Rightarrow> string list \<Rightarrow> nat \<Rightarrow> candidate_source option \<Rightarrow> int option
     \<Rightarrow> ref list \<Rightarrow> string list \<Rightarrow> ref list \<Rightarrow> (error + ref list) option" where
  "grouped_loop rec s tokens idx cg limit current_context [] new_context =
     Some (Inr new_context)"
| "grouped_loop rec s tokens idx cg limit current_context (token # rest) new_context =
     (case eval_token rec s tokens idx cg limit current_context token new_context of
        None \<Rightarrow> None
      | Some (Inl e) \<Rightarrow> Some (Inl e)
      | Some (Inr new_context') \<Rightarrow>
          grouped_loop rec s tokens idx cg limit current_context rest new_context')"

definition selector_combinators :: "string list" where
  "selector_combinators = [''>'', ''+'', ''~'']"

text \<open>
  \<open>for index, token_group in enumerate(tokens)\<close>: \<open>remaining\<close> is the part of \<open>tokens\<close>
  from \<open>index\<close> (here \<open>idx\<close>) on.  \<open>tokens[index-1]\<close> at index 0 is the last token.
\<close>

fun tokens_loop ::
  "selector_call \<Rightarrow> tree \<Rightarrow> string list \<Rightarrow> candidate_source option \<Rightarrow> int option
     \<Rightarrow> nat \<Rightarrow> string list \<Rightarrow> ref list \<Rightarrow> (error + ref list) option" where
  "tokens_loop rec s tokens cg limit idx [] current_context = Some (Inr current_context)"
| "tokens_loop rec s tokens cg limit idx (token_group # remaining) current_context =
     (let grouped_tokens = split_on (CHR '','') [] token_group in
      if [] \<in> set grouped_tokens
      then Some (Inl (ValueError (''Invalid group selection syntax: '' @ token_group)))
      else
        (case py_get tokens (int idx - 1) of
           Inl e \<Rightarrow> Some (Inl e)
         | Inr previous \<Rightarrow>
             if previous \<in> set selector_combinators
             then tokens_loop rec s tokens cg limit (Suc idx) remaining current_context
             else
               (case grouped_loop rec s tokens idx cg limit current_context grouped_tokens [] of
                  None \<Rightarrow> None
                | Some (Inl e) \<Rightarrow> Some (Inl e)
                | Some (Inr new_context) \<Rightarrow>
                    tokens_loop rec s tokens cg limit (Suc idx) remaining new_context)))"

subsection \<open>\<open>Tag.select\<close>\<close>

text \<open>
  \<open>re.sub(',[\s]*', ',', selector).split()\<close>, and one activation of \<open>select\<close>;
  \<open>rec\<close> stands for the calls \<open>recursive_select\<close> makes.
\<close>

definition tokenize :: "string \<Rightarrow> string list" where
  "tokenize selector = split_whitespace [] (strip_after_commas False selector)"

definition select_body :: "selector_call \<Rightarrow> selector_call" where
  "select_body rec s self selector candidate_generator limit =
     (let tokens = tokenize selector in
      case py_get tokens (- 1) of
        Inl e \<Rightarrow> Some (Inl e)
      | Inr final \<Rightarrow>
          if final \<in> set selector_combinators
          then Some (Inl (ValueError (''Final combinator '' @ [CHR 0x22] @ final @ [CHR 0x22]
                                        @ '' is missing an argument.'')))
          else tokens_loop rec s tokens candidate_generator limit 0 tokens [self])"

text \<open>
  \<open>select\<close> calls itself through \<open>recursive_select\<close>; the nesting is bounded by the
  interpreter as for \<open>py_eq\<close>.
\<close>

fun select_depth :: "nat \<Rightarrow> selector_call" where
  "select_depth 0 = (\<lambda>s self selector candidate_generator limit. Some (Inl RecursionError))"
| "select_depth (Suc d) = select_body (select_depth d)"

definition select :: "tree \<Rightarrow> ref \<Rightarrow> string \<Rightarrow> int option \<Rightarrow> (error + ref list) option" where
  "select s self selector limit =
     (if kind s self \<noteq> Tag then Some (Inl AttributeError)
      else select_depth recursion_limit s self selector None limit)"



text \<open>
  The document \<open><div><a class="a b"></a><b></b></div>\<close>: object 0 is the \<open>div\<close>, 1 the
  \<open>a\<close> tag, 2 the \<open>b\<close> tag.
\<close>

definition doc_div :: tree where
  "doc_div =
     \<lparr>kind = (\<lambda>x. if x \<le> 2 then Tag else NavigableString),
      name = (\<lambda>x. if x = 0 then ''div'' else if x = 1 then ''a'' else if x = 2 then ''b'' else []),
      payload = (\<lambda>x. []),
      attrs = (\<lambda>x. if x = 1 then [(''class'', StrList [''a'', ''b''])] else []),
      contents = (\<lambda>x. if x = 0 then [1, 2] else []),
      parent = (\<lambda>x. if x = 1 \<or> x = 2 then Some 0 else None),
      previous_element = (\<lambda>x. if x = 1 \<or> x = 2 then Some (x - 1) else None),
      next_element = (\<lambda>x. if x < 2 then Some (x + 1) else None),
      previous_sibling = (\<lambda>x. if x = 2 then Some 1 else None),
      next_sibling = (\<lambda>x. if x = 1 then Some 2 else None),
      is_xml = (\<lambda>x. False), prefix = (\<lambda>x. None), hidden = (\<lambda>x. False),
      can_be_empty_element = (\<lambda>x. False),
      next_ref = 3\<rparr>"

section \<open>Properties\<close>

declare py_eq.simps [simp del]

lemmas store_defs =
  set_parent_def set_previous_element_def set_next_element_def
  set_previous_sibling_def set_next_sibling_def set_contents_def

text \<open>The small document is what the constructors and \<open>append\<close> build.\<close>

lemma build_aba_doc_aba: "build_aba = Returns () doc_aba"
  apply (simp add: build_aba_def new_tag_def blank_def append_def insert_def insert_node_def
      new_navigable_string_def insert_links_def insert_before_links_def insert_after_links_def
      last_descendant_def last_descendant_loop.simps parents_next_sibling.simps
      py_get_def py_insert_def store_defs Let_def doc_aba_def)
  apply (auto simp: fun_eq_iff)
  done

subsection \<open>Rejections come before any assignment\<close>

text \<open>
  The checks that a mutation operation makes itself are its first statements (inserting
  a node into itself; replacing a node that has no parent, or replacing it with its
  parent; \<open>unwrap\<close>, \<open>insert_before\<close>, \<open>insert_after\<close> on a node without parent;
  inserting a node before or after itself): each raises ValueError with the store as it
  was.
\<close>

lemma own_checks_leave_tree_unchanged:
  "rejected_unchanged (insert s t p (Node t)) s \<and>
   (parent s n = None \<longrightarrow> rejected_unchanged (replace_with s n m) s) \<and>
   (parent s n = Some q \<and> q \<noteq> n \<longrightarrow> rejected_unchanged (replace_with s n (Node q)) s) \<and>
   (parent s n = None \<longrightarrow> rejected_unchanged (unwrap s n) s) \<and>
   (parent s n = None \<longrightarrow> rejected_unchanged (insert_before s n m) s) \<and>
   (parent s n = None \<longrightarrow> rejected_unchanged (insert_after s n m) s) \<and>
   rejected_unchanged (insert_before s n (Node n)) s \<and>
   rejected_unchanged (insert_after s n (Node n)) s"
  by (simp add: rejected_unchanged_def insert_def replace_with_def unwrap_def
        insert_before_def insert_after_def insert_beside_def truthy_opt_def)

lemma own_checks_leave_tree_unchanged_example:
  "parent doc_aba 0 = None \<and> parent doc_aba 2 = Some 0 \<and> (0::nat) \<noteq> 2 \<and>
   rejected_unchanged (insert doc_aba 0 1 (Node 0)) doc_aba \<and>
   rejected_unchanged (replace_with doc_aba 0 (Node 2)) doc_aba \<and>
   rejected_unchanged (replace_with doc_aba 2 (Node 0)) doc_aba \<and>
   rejected_unchanged (unwrap doc_aba 0) doc_aba \<and>
   rejected_unchanged (insert_before doc_aba 0 (Node 2)) doc_aba \<and>
   rejected_unchanged (insert_after doc_aba 0 (Node 2)) doc_aba"
proof -
  have h0: "parent doc_aba 0 = None" and h2: "parent doc_aba 2 = Some 0"
    by (simp_all add: doc_aba_def)
  from own_checks_leave_tree_unchanged
         [of doc_aba 0 1 0 "Node 2"]
       own_checks_leave_tree_unchanged
         [of doc_aba 0 1 2 "Node 0" 0]
       h0 h2
  show ?thesis by simp
qed

lemma build_nested_doc_nested: "build_nested = Returns () doc_nested"
  apply (simp add: build_nested_def new_tag_def blank_def append_def insert_def insert_node_def
      new_navigable_string_def insert_links_def insert_before_links_def insert_after_links_def
      last_descendant_def last_descendant_loop.simps parents_next_sibling.simps
      py_get_def py_insert_def store_defs Let_def doc_nested_def)
  apply (auto simp: fun_eq_iff)
  done

text \<open>
  Claim C4 asks that every rejection of a structural violation, the insertion of a node
  into itself among them, is raised before any link has been assigned.  \<open>insert_before\<close>
  and \<open>insert_after\<close> do not check for the parent as \<open>replace_with\<close> does.  In
  \<open><div><p><b></b></p></div>\<close>, \<open>b.insert_before(p)\<close> passes both checks of
  \<open>insert_before\<close>, extracts \<open>p\<close> from the \<open>div\<close>, and only then \<open>p.insert(0, p)\<close> raises
  "Cannot insert a tag into itself.": the \<open>div\<close> has lost its child, \<open>p\<close> its parent, and
  the document-order chain from the \<open>div\<close> is cut.  \<open>b.insert_after(p)\<close> does the same.
\<close>

theorem insert_beside_parent_rejected_after_extract:
  "(\<exists>s'. insert_before doc_nested 2 (Node 1) = Raises (ValueError ''Cannot insert a tag into itself.'') s' \<and>
         contents doc_nested 0 = [1] \<and> contents s' 0 = [] \<and>
         parent doc_nested 1 = Some 0 \<and> parent s' 1 = None \<and>
         next_element doc_nested 0 = Some 1 \<and> next_element s' 0 = None) \<and>
   (\<exists>s'. insert_after doc_nested 2 (Node 1) = Raises (ValueError ''Cannot insert a tag into itself.'') s' \<and>
         contents doc_nested 0 = [1] \<and> contents s' 0 = [] \<and>
         parent doc_nested 1 = Some 0 \<and> parent s' 1 = None \<and>
         next_element doc_nested 0 = Some 1 \<and> next_element s' 0 = None)"
  by (simp add: insert_before_def insert_after_def insert_beside_def insert_def
        extract_node_def extract_contents_def index_def doc_nested_def del_at_def
        last_descendant_def last_descendant_loop.simps truthy_opt_def truthy_def
        extract_elements_def extract_siblings_def py_ne_def py_eq.simps store_defs)

subsection \<open>Which errors the primitives can raise\<close>












subsection \<open>What \<open>extract\<close> and \<open>insert\<close> do to \<open>parent\<close> and \<open>contents\<close>\<close>





text \<open>
  A call of \<open>extract\<close> or \<open>insert\<close> that returns has changed \<open>parent\<close> and \<open>contents\<close>
  as follows, and no \<open>kind\<close>, \<open>payload\<close> or allocation.
\<close>

lemma extract_elements_frame:
  "extract_elements s x l = Inr s' \<Longrightarrow>
     kind s' = kind s \<and> payload s' = payload s \<and> next_ref s' = next_ref s
     \<and> parent s' = parent s \<and> contents s' = contents s"
  by (auto simp: extract_elements_def Let_def store_defs split: option.splits sum.splits if_splits)

lemma extract_siblings_frame:
  "extract_siblings s x = Inr s' \<Longrightarrow>
     kind s' = kind s \<and> payload s' = payload s \<and> next_ref s' = next_ref s
     \<and> parent s' = parent s \<and> contents s' = contents s"
  by (auto simp: extract_siblings_def Let_def store_defs split: option.splits sum.splits if_splits)

lemma extract_node_effect:
  assumes "extract_node s x = Returns r s'"
  shows "r = x \<and> kind s' = kind s \<and> payload s' = payload s \<and> next_ref s' = next_ref s
         \<and> parent s' = (parent s)(x := None)
         \<and> (parent s x = None \<longrightarrow> contents s' = contents s)
         \<and> (\<forall>p. parent s x = Some p \<longrightarrow>
               (\<exists>i. index s p x = Inr i
                    \<and> contents s' = (contents s)(p := del_at (contents s p) i)))"
proof -
  from assms obtain s1 where c: "extract_contents s x = Inr s1"
    by (cases "extract_contents s x") (simp_all add: extract_node_def)
  from assms c obtain l where l: "last_descendant s1 x True = Some (Some l)"
    by (cases "last_descendant s1 x True"; cases "the (last_descendant s1 x True)")
       (simp_all add: extract_node_def)
  from assms c l obtain s2 where e: "extract_elements s1 x l = Inr s2"
    by (cases "extract_elements s1 x l") (simp_all add: extract_node_def)
  from assms c l e have g: "extract_siblings (set_parent s2 x None) x = Inr s'" and r: "r = x"
    by (cases "extract_siblings (set_parent s2 x None) x"; simp add: extract_node_def Let_def)+
  from c have c1: "kind s1 = kind s \<and> payload s1 = payload s \<and> next_ref s1 = next_ref s
      \<and> parent s1 = parent s"
    by (auto simp: extract_contents_def store_defs split: option.splits sum.splits)
  from c have c2: "parent s x = None \<longrightarrow> contents s1 = contents s"
    by (auto simp: extract_contents_def)
  from c have c3: "\<forall>p. parent s x = Some p \<longrightarrow>
               (\<exists>i. index s p x = Inr i
                    \<and> contents s1 = (contents s)(p := del_at (contents s p) i))"
    by (auto simp: extract_contents_def store_defs split: option.splits sum.splits)
  from extract_elements_frame [OF e] extract_siblings_frame [OF g] c1 c2 c3 r
  show ?thesis by (simp add: store_defs)
qed

lemma insert_before_links_frame:
  "insert_before_links s p pos c = Returns u s' \<Longrightarrow>
     kind s' = kind s \<and> payload s' = payload s \<and> next_ref s' = next_ref s
     \<and> parent s' = (parent s)(c := Some p) \<and> contents s' = contents s"
  by (auto simp: insert_before_links_def Let_def store_defs
           split: option.splits sum.splits if_splits outcome.splits)

lemma insert_after_links_frame:
  "insert_after_links s p pos c = Returns u s' \<Longrightarrow>
     kind s' = kind s \<and> payload s' = payload s \<and> next_ref s' = next_ref s
     \<and> parent s' = parent s
     \<and> contents s' = (contents s)(p := py_insert (contents s p) pos c)"
  by (auto simp: insert_after_links_def Let_def store_defs
           split: option.splits sum.splits if_splits outcome.splits)

lemma insert_links_effect:
  "insert_links s p pos c = Returns u s' \<Longrightarrow>
     kind s' = kind s \<and> payload s' = payload s \<and> next_ref s' = next_ref s
     \<and> parent s' = (parent s)(c := Some p)
     \<and> contents s' = (contents s)(p := py_insert (contents s p) pos c)"
  by (auto simp: insert_links_def split: outcome.splits
           dest!: insert_before_links_frame insert_after_links_frame)



lemma insert_node_effect:
  assumes "insert_node s p pos0 c = Returns u s'"
  shows "kind s p = Tag \<and> kind s' = kind s \<and> payload s' = payload s \<and> next_ref s' = next_ref s
     \<and> parent s' = (parent s)(c := Some p)
     \<and> (parent s c \<noteq> Some p \<longrightarrow>
          contents s' p = py_insert (contents s p) (min pos0 (int (length (contents s p)))) c)
     \<and> (parent s c = Some p \<longrightarrow>
          (\<exists>j. index s p c = Inr j \<and>
               contents s' p =
                 py_insert (del_at (contents s p) j)
                   (if int j < min pos0 (int (length (contents s p)))
                    then min pos0 (int (length (contents s p))) - 1
                    else min pos0 (int (length (contents s p)))) c))"
proof -
  let ?pos = "min pos0 (int (length (contents s p)))"
  from assms have k: "kind s p = Tag"
    by (auto simp: insert_node_def split: if_splits)
  show ?thesis
  proof (cases "parent s c")
    case None
    with assms k have "insert_links s p ?pos c = Returns u s'"
      by (simp add: insert_node_def Let_def)
    from insert_links_effect [OF this] None k show ?thesis by simp
  next
    case (Some q)
    show ?thesis
    proof (cases "q = p")
      case True
      with assms k Some obtain j where j: "index s p c = Inr j"
        by (cases "index s p c") (simp_all add: insert_node_def Let_def)
      let ?pos' = "if int j < ?pos then ?pos - 1 else ?pos"
      from assms k Some True j obtain r s1 where
        e: "extract_node s c = Returns r s1" and i: "insert_links s1 p ?pos' c = Returns u s'"
        by (cases "extract_node s c") (simp_all add: insert_node_def Let_def)
      from extract_node_effect [OF e] Some True j
      have s1: "kind s1 = kind s" "payload s1 = payload s" "next_ref s1 = next_ref s"
        "parent s1 = (parent s)(c := None)"
        "contents s1 = (contents s)(p := del_at (contents s p) j)"
        by auto
      from insert_links_effect [OF i] s1 k Some True j show ?thesis by auto
    next
      case False
      from assms k Some False obtain r s1 where
        e: "extract_node s c = Returns r s1" and i: "insert_links s1 p ?pos c = Returns u s'"
        by (cases "extract_node s c") (simp_all add: insert_node_def Let_def)
      from extract_node_effect [OF e] Some obtain j where
        s1: "kind s1 = kind s" "payload s1 = payload s" "next_ref s1 = next_ref s"
        "parent s1 = (parent s)(c := None)"
        "contents s1 = (contents s)(q := del_at (contents s q) j)"
        by auto
      from insert_links_effect [OF i] s1 k Some False show ?thesis by auto
    qed
  qed
qed












lemma insert_returns_string:
  "insert s p pos (RawStr v) = Returns u s' \<Longrightarrow>
     insert_node (snd (new_navigable_string s v)) p pos (next_ref s) = Returns u s'"
  by (auto simp: insert_def new_navigable_string_def Let_def split: if_splits)


lemma new_navigable_string_fields:
  "kind (snd (new_navigable_string s v)) = (kind s)(next_ref s := NavigableString)"
  "payload (snd (new_navigable_string s v)) = (payload s)(next_ref s := v)"
  "parent (snd (new_navigable_string s v)) = (parent s)(next_ref s := None)"
  "contents (snd (new_navigable_string s v)) = (contents s)(next_ref s := [])"
  "next_ref (snd (new_navigable_string s v)) = Suc (next_ref s)"
  by (simp_all add: new_navigable_string_def Let_def)


subsection \<open>\<open>replace_with\<close>\<close>





subsection \<open>When \<open>insert\<close> returns\<close>

text \<open>
  The two loops of \<open>insert\<close> are the walk of \<open>_last_descendant\<close> down the last children
  and the walk up the parents to the next sibling.  The first ends in a store when it ends
  in another that differs only at leaves; the second ends when the element has finitely
  many \<open>parents\<close>.
\<close>

lemma last_descendant_loop_transfer:
  assumes "last_descendant_loop s x = Some y"
    and "\<forall>z. (kind s' z = kind s z \<and> contents s' z = contents s z)
             \<or> kind s' z \<noteq> Tag \<or> contents s' z = []"
  shows "\<exists>y'. last_descendant_loop s' x = Some y'"
  using assms
proof (induction rule: last_descendant_loop.raw_induct [rotated 1, consumes 1])
  case (1 loop s x y)
  show ?case
  proof (cases "kind s' x = Tag \<and> contents s' x \<noteq> []")
    case False
    then show ?thesis by (auto simp: last_descendant_loop.simps [of s' x])
  next
    case True
    with 1(3) have same: "kind s' x = kind s x" "contents s' x = contents s x" by blast+
    with True 1(2) have "loop s (last (contents s x)) = Some y" by simp
    from 1(1) [OF this 1(3)] obtain y' where
      "last_descendant_loop s' (last (contents s x)) = Some y'" by blast
    with True same show ?thesis by (simp add: last_descendant_loop.simps [of s' x])
  qed
qed

lemma insert_before_links_returns:
  assumes "0 \<le> pos" "pos \<le> int (length (contents s t))"
    and "0 < pos \<longrightarrow> last_descendant_loop s (contents s t ! nat (pos - 1)) \<noteq> None"
  shows "\<exists>s'. insert_before_links s t pos c = Returns () s'
              \<and> (\<forall>z. next_sibling s z \<noteq> None \<longrightarrow> next_sibling s' z \<noteq> None)"
proof (cases "pos = 0")
  case True
  then show ?thesis
    by (simp add: insert_before_links_def Let_def store_defs split: option.splits)
next
  case False
  let ?prev = "contents s t ! nat (pos - 1)"
  let ?s1 = "set_parent s c (Some t)"
  let ?s3 = "set_next_sibling (set_previous_sibling ?s1 c (Some ?prev)) ?prev (Some c)"
  from False assms have g: "py_get (contents ?s1 t) (pos - 1) = Inr ?prev"
    by (simp add: py_get_def store_defs)
  from False assms obtain l where "last_descendant_loop s ?prev = Some l" by auto
  from last_descendant_loop_transfer [OF this, of ?s3]
  obtain l' where l: "last_descendant_loop ?s3 ?prev = Some l'"
    by (auto simp: store_defs)
  from False g l show ?thesis
    by (simp add: insert_before_links_def Let_def last_descendant_def store_defs
             split: option.splits)
qed

lemma insert_after_links_returns:
  assumes "last_descendant_loop s c \<noteq> None" "0 \<le> pos"
    and "int (length (contents s t)) \<le> pos \<longrightarrow>
           parents_next_sibling (set_next_sibling s c None) (Some t) \<noteq> None"
  shows "\<exists>s'. insert_after_links s t pos c = Returns () s'"
proof -
  from assms(1) obtain l where l: "last_descendant s c False = Some (Some l)"
    by (auto simp: last_descendant_def)
  show ?thesis
  proof (cases "int (length (contents s t)) \<le> pos")
    case True
    with assms(3) obtain r where "parents_next_sibling (set_next_sibling s c None) (Some t) = Some r"
      by auto
    with True l show ?thesis
      by (simp add: insert_after_links_def Let_def split: option.splits)
  next
    case False
    with assms(2) have "py_get (contents s t) pos = Inr (contents s t ! nat pos)"
      by (simp add: py_get_def)
    with False l show ?thesis
      by (simp add: insert_after_links_def Let_def split: option.splits)
  qed
qed

lemma follow_parent_Some:
  "follow_parent s (Some x) = Some ps \<Longrightarrow>
     \<exists>rest. ps = x # rest \<and> follow_parent s (parent s x) = Some rest"
  by (subst (asm) follow_parent.simps) (auto simp: bind_eq_Some_conv)

lemma follow_parent_transfer:
  "follow_parent s xo = Some ps \<Longrightarrow> \<forall>z \<in> set ps. parent s' z = parent s z \<Longrightarrow>
     follow_parent s' xo = Some ps"
proof (induction ps arbitrary: xo)
  case Nil
  then show ?case
    by (cases xo) (auto simp: follow_parent.simps [of s' None] dest: follow_parent_Some)
next
  case (Cons q ps)
  from Cons.prems(1) obtain x where x: "xo = Some x"
    by (cases xo) (auto simp: follow_parent.simps [of s None])
  with Cons.prems(1) have q: "q = x" and r: "follow_parent s (parent s x) = Some ps"
    by (auto dest: follow_parent_Some)
  from Cons.IH [OF r] Cons.prems(2) have "follow_parent s' (parent s x) = Some ps" by simp
  with Cons.prems(2) q x show ?case
    by (simp add: follow_parent.simps [of s' "Some x"])
qed

lemma parents_walk_ends:
  "follow_parent s (parent s t) = Some ps \<Longrightarrow> \<forall>z \<in> set (t # ps). parent s' z = parent s z \<Longrightarrow>
     \<exists>r. parents_next_sibling s' (Some t) = Some r"
proof (induction ps arbitrary: t)
  case Nil
  then have "parent s t = None"
    by (cases "parent s t") (auto dest: follow_parent_Some)
  with Nil.prems(2) show ?case
    by (cases "next_sibling s' t")
       (simp_all add: parents_next_sibling.simps [of s' "Some t"] parents_next_sibling.simps [of s' None])
next
  case (Cons q ps)
  from Cons.prems(1) obtain x where x: "parent s t = Some x"
    by (cases "parent s t") (auto simp: follow_parent.simps [of s None])
  with Cons.prems(1) have q: "q = x" and r: "follow_parent s (parent s x) = Some ps"
    by (auto dest: follow_parent_Some)
  from Cons.IH [OF r] Cons.prems(2) q obtain r' where
    "parents_next_sibling s' (Some x) = Some r'" by auto
  with Cons.prems(2) x show ?case
    by (cases "next_sibling s' t") (simp_all add: parents_next_sibling.simps [of s' "Some t"])
qed

lemma insert_detached_returns:
  assumes k: "kind s t = Tag" and ct: "c \<noteq> t" and d: "parent s c = None" and p: "0 \<le> p"
    and a: "parents s t = Some ps" "c \<notin> set ps"
    and lc: "last_descendant_loop s c \<noteq> None"
    and h1: "0 < p \<and> contents s t \<noteq> [] \<longrightarrow>
               last_descendant_loop s
                 (contents s t ! nat (min p (int (length (contents s t))) - 1)) \<noteq> None"
  shows "\<exists>s'. insert_node s t p c = Returns () s'"
proof -
  let ?pos = "min p (int (length (contents s t)))"
  have i: "insert_node s t p c = insert_links s t ?pos c"
    using k d by (simp add: insert_node_def Let_def)
  have pos: "0 \<le> ?pos" "?pos \<le> int (length (contents s t))"
    using p by simp_all
  from h1 have "0 < ?pos \<longrightarrow> last_descendant_loop s (contents s t ! nat (?pos - 1)) \<noteq> None"
    by auto
  from insert_before_links_returns [OF pos this, of c] obtain s4 where
    b: "insert_before_links s t ?pos c = Returns () s4" by blast
  from insert_before_links_frame [OF b]
  have g: "kind s4 = kind s" "contents s4 = contents s" "parent s4 = (parent s)(c := Some t)"
    by simp_all
  from lc obtain l where "last_descendant_loop s c = Some l" by auto
  from last_descendant_loop_transfer [OF this, of s4]
  have l: "last_descendant_loop s4 c \<noteq> None" by (auto simp: g)
  have "int (length (contents s4 t)) \<le> ?pos \<longrightarrow>
           parents_next_sibling (set_next_sibling s4 c None) (Some t) \<noteq> None"
    using parents_walk_ends [of s t ps "set_next_sibling s4 c None"] a ct
    by (auto simp: parents_def g store_defs)
  from insert_after_links_returns [OF l pos(1)] this g
  obtain s' where "insert_after_links s4 t ?pos c = Returns () s'" by auto
  with b i show ?thesis by (simp add: insert_links_def)
qed

lemma insert_string_returns:
  assumes k: "kind s t = Tag" and p: "0 \<le> p"
    and a: "parents s t = Some ps" "next_ref s \<notin> set (t # ps)"
    and h1: "0 < p \<and> contents s t \<noteq> [] \<longrightarrow>
               last_descendant_loop s
                 (contents s t ! nat (min p (int (length (contents s t))) - 1)) \<noteq> None"
  shows "\<exists>s'. insert s t p (RawStr v) = Returns () s'"
proof -
  let ?u = "next_ref s" and ?s1 = "snd (new_navigable_string s v)"
  have f: "kind ?s1 = (kind s)(?u := NavigableString)" "contents ?s1 = (contents s)(?u := [])"
    "parent ?s1 = (parent s)(?u := None)"
    by (simp_all add: new_navigable_string_def Let_def)
  from a have tu: "t \<noteq> ?u" by auto
  have i: "insert s t p (RawStr v) = insert_node ?s1 t p ?u"
    by (simp add: insert_def new_navigable_string_def Let_def)
  have k1: "kind ?s1 t = Tag" and d1: "parent ?s1 ?u = None" and c1: "contents ?s1 t = contents s t"
    using k tu by (simp_all add: f)
  have a1: "parents ?s1 t = Some ps"
    using follow_parent_transfer [of s "parent s t" ps ?s1] a tu
    by (auto simp: parents_def f)
  have l1: "last_descendant_loop ?s1 ?u \<noteq> None"
    by (simp add: last_descendant_loop.simps [of ?s1 ?u] f)
  have "0 < p \<and> contents ?s1 t \<noteq> [] \<longrightarrow>
               last_descendant_loop ?s1
                 (contents ?s1 t ! nat (min p (int (length (contents ?s1 t))) - 1)) \<noteq> None"
  proof
    assume "0 < p \<and> contents ?s1 t \<noteq> []"
    with h1 c1 obtain l where
      "last_descendant_loop s (contents s t ! nat (min p (int (length (contents s t))) - 1)) = Some l"
      by auto
    from last_descendant_loop_transfer [OF this, of ?s1]
    have "\<exists>y'. last_descendant_loop ?s1
            (contents s t ! nat (min p (int (length (contents s t))) - 1)) = Some y'"
      by (auto simp: f)
    then show "last_descendant_loop ?s1
            (contents ?s1 t ! nat (min p (int (length (contents ?s1 t))) - 1)) \<noteq> None"
      by (auto simp only: c1)
  qed
  from insert_detached_returns [OF k1 _ d1 p a1 _ l1 this] a tu i show ?thesis by auto
qed

lemma set_py_insert: "set (py_insert xs i x) = {x} \<union> set xs"
proof -
  have "set (take n xs) \<union> set (drop n xs) = set xs" for n
    by (metis append_take_drop_id set_append)
  then show ?thesis by (auto simp: py_insert_def Let_def)
qed

lemma insert_node_detached_effect:
  assumes "insert_node s p pos0 c = Returns u s'" "parent s c = None"
  shows "kind s' = kind s \<and> payload s' = payload s \<and> next_ref s' = next_ref s
     \<and> parent s' = (parent s)(c := Some p)
     \<and> contents s' = (contents s)(p := py_insert (contents s p) (min pos0 (int (length (contents s p)))) c)"
proof -
  from assms have "insert_links s p (min pos0 (int (length (contents s p)))) c = Returns u s'"
    by (auto simp: insert_node_def Let_def split: if_splits)
  from insert_links_effect [OF this] show ?thesis by simp
qed


subsection \<open>\<open>insert\<close> of a plain string\<close>

text \<open>
  Claim C10.  \<open>t.insert(p, s)\<close> with a plain string \<open>s\<close> makes a new \<open>NavigableString\<close>
  (the next object allocated) before anything is wired.  For a tag \<open>t\<close> with finitely
  many parents, none of them the address about to be allocated, and a position \<open>p\<close> of at
  least 0 (the walk below the child before the position ending), the call returns.  And
  whenever the call returns, the child it has put into \<open>t.contents\<close> is that new object: a
  \<open>NavigableString\<close> with payload \<open>s\<close> and parent \<open>t\<close>; the children are the old ones and
  this one, and no other object has changed its class or payload.
\<close>

theorem insert_wraps_plain_string:
  "(kind s t = Tag \<and> 0 \<le> p \<and> parents s t = Some ps \<and> next_ref s \<notin> set (t # ps)
      \<and> (0 < p \<and> contents s t \<noteq> [] \<longrightarrow>
           last_descendant_loop s
             (contents s t ! nat (min p (int (length (contents s t))) - 1)) \<noteq> None) \<longrightarrow>
      (\<exists>s'. insert s t p (RawStr v) = Returns () s')) \<and>
   (\<forall>u s'. insert s t p (RawStr v) = Returns u s' \<longrightarrow>
      kind s' (next_ref s) = NavigableString \<and> payload s' (next_ref s) = v \<and>
      parent s' (next_ref s) = Some t \<and>
      contents s' t =
        py_insert (contents s t) (min p (int (length (contents s t)))) (next_ref s) \<and>
      set (contents s' t) = {next_ref s} \<union> set (contents s t) \<and>
      (\<forall>x. x \<noteq> next_ref s \<longrightarrow> kind s' x = kind s x \<and> payload s' x = payload s x))"
proof (intro conjI impI allI)
  assume "kind s t = Tag \<and> 0 \<le> p \<and> parents s t = Some ps \<and> next_ref s \<notin> set (t # ps)
      \<and> (0 < p \<and> contents s t \<noteq> [] \<longrightarrow>
           last_descendant_loop s
             (contents s t ! nat (min p (int (length (contents s t))) - 1)) \<noteq> None)"
  then show "\<exists>s'. insert s t p (RawStr v) = Returns () s'"
    by (intro insert_string_returns [of s t p ps]) blast+
next
  fix u s'
  assume r: "insert s t p (RawStr v) = Returns u s'"
  let ?u = "next_ref s" and ?s1 = "snd (new_navigable_string s v)"
  from insert_returns_string [OF r] have n: "insert_node ?s1 t p ?u = Returns u s'" .
  from insert_node_effect [OF n] have "kind ?s1 t = Tag" by simp
  then have tu: "t \<noteq> ?u" by (auto simp: new_navigable_string_fields)
  from insert_node_detached_effect [OF n] tu
  have e: "kind s' = (kind s)(?u := NavigableString)" "payload s' = (payload s)(?u := v)"
    "parent s' ?u = Some t"
    "contents s' t = py_insert (contents s t) (min p (int (length (contents s t)))) ?u"
    by (simp_all add: new_navigable_string_fields)
  from e show "kind s' (next_ref s) = NavigableString" "payload s' (next_ref s) = v"
    "parent s' (next_ref s) = Some t"
    "contents s' t = py_insert (contents s t) (min p (int (length (contents s t)))) (next_ref s)"
    by simp_all
  from e(4) show "set (contents s' t) = {next_ref s} \<union> set (contents s t)"
    by (simp only: set_py_insert)
  fix x assume "x \<noteq> next_ref s"
  with e show "kind s' x = kind s x" "payload s' x = payload s x" by simp_all
qed

theorem insert_wraps_plain_string_witness:
  "kind doc_aba 0 = Tag \<and> parents doc_aba 0 = Some [] \<and> next_ref doc_aba \<notin> set [0] \<and>
   last_descendant_loop doc_aba (contents doc_aba 0 ! 0) \<noteq> None \<and>
   (\<exists>s'. insert doc_aba 0 1 (RawStr ''x'') = Returns () s' \<and>
         kind s' 4 = NavigableString \<and> payload s' 4 = ''x'' \<and> parent s' 4 = Some 0 \<and>
         contents s' 0 = [1, 4, 2, 3])"
proof -
  have h: "kind doc_aba 0 = Tag" "parents doc_aba 0 = Some []" "next_ref doc_aba \<notin> set [0]"
    "last_descendant_loop doc_aba (contents doc_aba 0 ! 0) \<noteq> None"
    "next_ref doc_aba = 4" "contents doc_aba 0 = [1, 2, 3]"
    by (simp_all add: doc_aba_def parents_def follow_parent.simps last_descendant_loop.simps)
  have "kind doc_aba 0 = Tag \<and> (0::int) \<le> 1 \<and> parents doc_aba 0 = Some [] \<and> next_ref doc_aba \<notin> set (0 # [])
      \<and> ((0::int) < 1 \<and> contents doc_aba 0 \<noteq> [] \<longrightarrow>
           last_descendant_loop doc_aba
             (contents doc_aba 0 ! nat (min 1 (int (length (contents doc_aba 0))) - 1)) \<noteq> None)"
    using h by simp
  from insert_wraps_plain_string [of doc_aba 0 1 "[]" "''x''", THEN conjunct1, THEN mp, OF this]
  obtain s' where r: "insert doc_aba 0 1 (RawStr ''x'') = Returns () s'" by blast
  from insert_wraps_plain_string [of doc_aba 0 1 "[]" "''x''", THEN conjunct2, THEN spec, THEN spec,
      THEN mp, OF r] h(5,6)
  have "kind s' 4 = NavigableString \<and> payload s' 4 = ''x'' \<and> parent s' 4 = Some 0 \<and>
         contents s' 0 = [1, 4, 2, 3]"
    by (simp add: py_insert_def)
  with r h show ?thesis by blast
qed

subsection \<open>The position of \<open>insert\<close>\<close>






subsection \<open>\<open>wrap\<close> followed by \<open>unwrap\<close>\<close>






subsection \<open>The document-order chain after \<open>extract\<close>\<close>

text \<open>
  Claim C1 asks that after any sequence of mutations the walk along \<open>next_element\<close> from
  the first node visits every attached node once, in pre-order, and is the reverse of
  the walk along \<open>previous_element\<close> from the last node.  In \<open><p>a<b></b>a</p>\<close>,
  \<open>b.extract()\<close> compares the two strings around \<open>b\<close> with \<open>!=\<close>; they are equal as
  strings, so neither chain is reconnected.  Afterwards \<open>p\<close> has the children 1 and 3,
  but the walk from \<open>p\<close> visits 1 and then the detached 2, and never reaches 3; the walk
  back from 3 reaches only 2.
\<close>

theorem extract_between_equal_strings_breaks_chain:
  "\<exists>s'. extract_node doc_aba 2 = Returns 2 s' \<and>
        contents s' 0 = [1, 3] \<and> parent s' 3 = Some 0 \<and> parent s' 2 = None \<and>
        next_elements s' 0 = Some [1, 2] \<and> previous_elements s' 3 = Some [2]"
  by (simp add: extract_node_def extract_contents_def index_def doc_aba_def del_at_def
        last_descendant_def truthy_opt_def truthy_def extract_elements_def
        extract_siblings_def py_ne_def py_eq.simps store_defs next_elements_def
        previous_elements_def follow_next_element.simps follow_previous_element.simps)

subsection \<open>Evaluating the selector model\<close>

lemma select_depth_numeral:
  "select_depth (numeral k) = select_body (select_depth (pred_numeral k))"
  by (simp add: numeral_eq_Suc)

lemmas char_class_defs =
  is_space_def is_digit_def is_ascii_alnum_def is_tag_char_def is_word_def code_point_def

lemmas parse_defs =
  parse_token_def parse_pseudo_def attribselect_match_def tag_name_match_def pseudo_match_def
  split_first_def char_class_defs

lemmas checker_defs =
  apply_checker_def verdict_of_def classes_match_def attribute_checker_def id_matches_def
  get_def has_attr_def

lemmas select_defs =
  select_def recursion_limit_def select_depth_numeral select_body_def tokenize_def eval_token_def
  selector_combinators_def py_get_def descendants_def source_generator_def
  last_descendant_def truthy_opt_def truthy_def recursive_select_def
  candidates_loop.simps consider_candidate_def gen_step_def limit_reached_def
  find_next_sibling_true.simps last_descendant_loop.simps Let_def

subsection \<open>The class and attribute checkers\<close>

text \<open>
  Claim C9.  For every tag whose \<open>class\<close> attribute is the list \<open>["a", "b"]\<close>: the token
  \<open>.a.b\<close> is a class selector and its checker accepts the tag; the token \<open>.a.c\<close> is a
  class selector and its checker rejects the tag; the token \<open>[class~="a"]\<close> is an
  attribute selector with operator \<open>~\<close>, and that checker accepts the tag.
\<close>

theorem class_checkers_on_a_b:
  "get s t ''class'' = Some (StrList [''a'', ''b'']) \<Longrightarrow>
   parse_token ''.a.b'' = Inr (Simple (Some []) (Some (ClassesMatch [''a'', ''b'']))) \<and>
   classes_match [''a'', ''b''] s t = Inr True \<and>
   parse_token ''.a.c'' = Inr (Simple (Some []) (Some (ClassesMatch [''a'', ''c'']))) \<and>
   classes_match [''a'', ''c''] s t = Inr False \<and>
   parse_token ([CHR ''['', CHR ''c'', CHR ''l'', CHR ''a'', CHR ''s'', CHR ''s'', CHR ''~'',
                 CHR ''='', CHR 0x22, CHR ''a'', CHR 0x22, CHR '']''])
     = Inr (Simple None (Some (AttributeChecker ''~'' ''class'' ''a''))) \<and>
   attribute_checker ''~'' ''class'' ''a'' s t = Inr True"
  by (simp add: parse_defs classes_match_def attribute_checker_def)

theorem class_checkers_on_a_b_witness:
  "get doc_div 1 ''class'' = Some (StrList [''a'', ''b'']) \<and>
   classes_match [''a'', ''b''] doc_div 1 = Inr True \<and>
   classes_match [''a'', ''c''] doc_div 1 = Inr False \<and>
   attribute_checker ''~'' ''class'' ''a'' doc_div 1 = Inr True"
proof -
  have h: "get doc_div 1 ''class'' = Some (StrList [''a'', ''b''])"
    by (simp add: get_def doc_div_def)
  from h class_checkers_on_a_b [OF h] show ?thesis by blast
qed

subsection \<open>The limit of \<open>select\<close>\<close>

text \<open>
  Claim C6 asks that the result of \<open>select\<close> has no duplicates and, with a truthy
  limit, at most \<open>limit\<close> members.  The \<open>break\<close> taken when the limit is reached leaves
  only the loop over the candidates of one context tag; the loops over the context and
  over the alternatives of a group go on, and each later pass appends one more element.
  In \<open><div><a class="a b"></a><b></b></div>\<close>, \<open>select("a,b", limit=1)\<close> returns both
  tags.
\<close>

theorem select_limit_exceeded:
  "select doc_div 0 ''a,b'' (Some 1) = Some (Inr [1, 2])"
  by (simp add: select_defs parse_defs checker_defs doc_div_def)

subsection \<open>Selector syntax errors\<close>





















end
